theory Spec2Isabelle
  imports Main "HOL-Library.Sublist" "HOL-Library.Multiset"
begin

section \<open>WhoWasWhen: the query interpretation and result pipeline of ruler-query.go\<close>

text \<open>
  The development follows \<^verbatim>\<open>src/pkg/ruler-query.go\<close>. Go strings are byte sequences and
  are modelled as \<^typ>\<open>string\<close> (lists of 8-bit characters); Go's \<^verbatim>\<open>int\<close> is modelled as
  \<^typ>\<open>int\<close>, with the 64-bit wrap-around written out at the one place where it can show
  (the negation in \<^verbatim>\<open>formatYear\<close>). A \<^verbatim>\<open>sql.NullString\<close> is a \<^typ>\<open>string option\<close>
  (\<open>None\<close> is the invalid, NULL value). Record fields carry a short prefix naming their
  struct (\<open>pi_\<close> for PeriodInfo, \<open>tg_\<close> for TitleGroup, \<open>rr_\<close> for RulerRow, \<open>it_\<close>
  for AlfredItem, \<open>mod_\<close> for AlfredMod, \<open>cfg_\<close> for Config), since several structs of the
  source share field names.
\<close>

subsection \<open>Decimal rendering: strconv.Itoa and the verb \%d\<close>

definition digitChar :: "nat \<Rightarrow> char" where
  "digitChar d = ''0123456789'' ! d"

fun digits :: "nat \<Rightarrow> string" where
  "digits n = (if n < 10 then [digitChar n] else digits (n div 10) @ [digitChar (n mod 10)])"

declare digits.simps [simp del]

text \<open>\<^verbatim>\<open>strconv.Itoa\<close>, which is also what \<^verbatim>\<open>fmt.Sprintf("%d", n)\<close> prints.\<close>

definition Itoa :: "int \<Rightarrow> string" where
  "Itoa i = (if i < 0 then CHR ''-'' # digits (nat (- i)) else digits (nat i))"

text \<open>The value a 64-bit signed integer holds after an arithmetic result \<open>x\<close> wraps around.\<close>

definition wrap64 :: "int \<Rightarrow> int" where
  "wrap64 x = (x + 2 ^ 63) mod 2 ^ 64 - 2 ^ 63"

text \<open>Go's unary minus on an \<^verbatim>\<open>int\<close>.\<close>

definition neg64 :: "int \<Rightarrow> int" where
  "neg64 y = wrap64 (- y)"

subsection \<open>formatNumber\<close>

text \<open>
  The loop of \<^verbatim>\<open>formatNumber\<close> over the bytes of \<open>str\<close>: \<open>n\<close> is \<open>len(str)\<close>, \<open>i\<close> the index of
  the byte at the head of the remaining input.
\<close>

fun formatNumber_loop :: "nat \<Rightarrow> nat \<Rightarrow> string \<Rightarrow> string" where
  "formatNumber_loop n i [] = []"
| "formatNumber_loop n i (c # cs) =
     (if 0 < i \<and> (n - i) mod 3 = 0
      then CHR '','' # c # formatNumber_loop n (Suc i) cs
      else c # formatNumber_loop n (Suc i) cs)"

definition formatNumber :: "int \<Rightarrow> string" where
  "formatNumber n =
     (let str = Itoa n
      in if length str \<le> 3 then str else formatNumber_loop (length str) 0 str)"

subsection \<open>formatYear\<close>

definition formatYear :: "int \<Rightarrow> string" where
  "formatYear year = (if year < 0 then Itoa (neg64 year) @ '' BC'' else Itoa year)"

subsection \<open>strings.ToLower and strings.Contains\<close>

text \<open>
  \<^verbatim>\<open>strings.ToLower\<close> on ASCII text: the letters A to Z are mapped to a to z and every other
  byte is kept. (Titles outside ASCII are not covered by this model.)
\<close>

definition toLowerChar :: "char \<Rightarrow> char" where
  "toLowerChar c =
     (case map_of (zip ''ABCDEFGHIJKLMNOPQRSTUVWXYZ'' ''abcdefghijklmnopqrstuvwxyz'') c of
        Some l \<Rightarrow> l
      | None \<Rightarrow> c)"

definition ToLower :: "string \<Rightarrow> string" where
  "ToLower s = map toLowerChar s"

fun Contains :: "string \<Rightarrow> string \<Rightarrow> bool" where
  "Contains [] sub = (sub = [])"
| "Contains (c # cs) sub = (prefix sub (c # cs) \<or> Contains cs sub)"

subsection \<open>getTitleRank\<close>

definition getTitleRank :: "string \<Rightarrow> int" where
  "getTitleRank title =
     (let titleLower = ToLower title in
      if Contains titleLower ''roman emperor'' then 1
      else if Contains titleLower ''byzantine emperor'' then 2
      else if Contains titleLower ''holy roman emperor'' then 3
      else if Contains titleLower ''king'' \<or> Contains titleLower ''queen'' then 10
      else if Contains titleLower ''emperor'' then 15
      else if Contains titleLower ''tsar'' \<or> Contains titleLower ''czar'' then 20
      else if Contains titleLower ''president'' then 30
      else if Contains titleLower ''prime minister'' \<or> Contains titleLower ''premier'' then 35
      else if Contains titleLower ''chancellor'' then 40
      else if Contains titleLower ''duke'' \<or> Contains titleLower ''duchess'' then 50
      else if Contains titleLower ''pope'' then 55
      else if Contains titleLower ''patriarch'' then 60
      else if Contains titleLower ''consul'' then 100
      else if Contains titleLower ''tribune'' then 110
      else if Contains titleLower ''dictator'' then 120
      else 1000)"

subsection \<open>Periods and title groups\<close>

record PeriodInfo =
  pi_Period :: string
  pi_Notes :: string
  pi_Title :: string
  pi_StartYear :: int
  pi_EndYear :: int
  pi_ProgrTitle :: int

record TitleGroup =
  tg_Title :: string
  tg_Periods :: "PeriodInfo list"
  tg_Rank :: int


subsection \<open>formatSubtitle\<close>




text \<open>
  The two nested \<^verbatim>\<open>for\<close> loops that sort \<open>sortedTitleGroups\<close> in place: \<open>sortInner\<close> is
  the loop over \<open>j\<close> for a fixed \<open>i\<close>, \<open>sortOuter\<close> the loop over \<open>i\<close>. The swaps keep the
  length of the slice, so the bound \<open>len(sortedTitleGroups)\<close> of the outer loop is the
  length \<open>n\<close> at its start.
\<close>

function sortInner :: "nat \<Rightarrow> nat \<Rightarrow> TitleGroup list \<Rightarrow> TitleGroup list" where
  "sortInner i j gs =
     (if j < length gs
      then sortInner i (Suc j)
             (if tg_Rank (gs ! i) > tg_Rank (gs ! j) then gs[i := gs ! j, j := gs ! i] else gs)
      else gs)"
  by pat_completeness auto
termination
  by (relation "measure (\<lambda>(i, j, gs). length gs - j)") auto

function sortOuter :: "nat \<Rightarrow> nat \<Rightarrow> TitleGroup list \<Rightarrow> TitleGroup list" where
  "sortOuter n i gs = (if i < n then sortOuter n (Suc i) (sortInner i (Suc i) gs) else gs)"
  by pat_completeness auto
termination
  by (relation "measure (\<lambda>(n, i, gs). n - i)") auto






subsection \<open>Tokens: strings.Fields and isNumberLike\<close>

text \<open>
  \<^verbatim>\<open>strings.Fields\<close> splits at white space; on ASCII text these are the six bytes below.
  The loop keeps the field being read in \<open>cur\<close> and the fields read so far in \<open>acc\<close>.
\<close>

definition isSpace :: "char \<Rightarrow> bool" where
  "isSpace c \<longleftrightarrow> c \<in> set [CHR 0x09, CHR 0x0A, CHR 0x0B, CHR 0x0C, CHR 0x0D, CHR '' '']"

fun Fields_loop :: "string \<Rightarrow> string list \<Rightarrow> string \<Rightarrow> string list" where
  "Fields_loop cur acc [] = (if cur = [] then acc else acc @ [cur])"
| "Fields_loop cur acc (c # cs) =
     (if isSpace c then Fields_loop [] (if cur = [] then acc else acc @ [cur]) cs
      else Fields_loop (cur @ [c]) acc cs)"

definition Fields :: "string \<Rightarrow> string list" where
  "Fields s = Fields_loop [] [] s"

text \<open>
  Regular expressions are run as parsers that return every rest of the input a match can
  leave: \<open>optChr c\<close> is \<open>c?\<close>, \<open>many P\<close> is a starred character class, \<open>chr c\<close> a
  single character, \<open>andThen p q\<close> is \<open>p\<close> followed by \<open>q\<close>. An anchored
  pattern matches when the empty rest is among the results.
\<close>

definition isDigit :: "char \<Rightarrow> bool" where
  "isDigit c \<longleftrightarrow> c \<in> set ''0123456789''"

definition isStar :: "char \<Rightarrow> bool" where
  "isStar c \<longleftrightarrow> c = CHR ''*''"

definition optChr :: "char \<Rightarrow> string \<Rightarrow> string list" where
  "optChr c s = (case s of [] \<Rightarrow> [s] | x # xs \<Rightarrow> if x = c then [xs, s] else [s])"

definition chr :: "char \<Rightarrow> string \<Rightarrow> string list" where
  "chr c s = (case s of [] \<Rightarrow> [] | x # xs \<Rightarrow> if x = c then [xs] else [])"

fun many :: "(char \<Rightarrow> bool) \<Rightarrow> string \<Rightarrow> string list" where
  "many P [] = [[]]"
| "many P (x # xs) = (if P x then many P xs @ [x # xs] else [x # xs])"

definition andThen :: "(string \<Rightarrow> string list) \<Rightarrow> (string \<Rightarrow> string list) \<Rightarrow> string \<Rightarrow> string list" where
  "andThen p q s = concat (map q (p s))"

text \<open>The parser of \<^verbatim>\<open>-?\d*\**\<close>, the part both alternatives of the pattern are built from.\<close>

definition yearPart :: "string \<Rightarrow> string list" where
  "yearPart = andThen (optChr CHR ''-'') (andThen (many isDigit) (many isStar))"

text \<open>\<^verbatim>\<open>isNumberLike\<close>: the pattern \<^verbatim>\<open>^-?\d*\**$|^-?\d*\**--?\d*\**$\<close>.\<close>

definition isNumberLike :: "string \<Rightarrow> bool" where
  "isNumberLike term \<longleftrightarrow>
     [] \<in> set (yearPart term) \<or>
     [] \<in> set (andThen yearPart (andThen (chr CHR ''-'') yearPart) term)"

subsection \<open>extractRange\<close>

text \<open>
  The pattern of \<^verbatim>\<open>extractRange\<close> is \<^verbatim>\<open>^(-?\d+)-(-?\d+)$|^-?(\d+)$\<close>. A digit is neither
  a hyphen nor the end of the input, so each group can match in one way only: the
  optional hyphen if there is one, then the longest run of digits, which must not be
  empty. \<open>signedDigits\<close> matches \<^verbatim>\<open>-?\d+\<close> at the head of the input and returns the
  match and the rest.
\<close>

definition signedDigits :: "string \<Rightarrow> (string \<times> string) option" where
  "signedDigits s =
     (let sign = (if s \<noteq> [] \<and> hd s = CHR ''-'' then ''-'' else []);
          r = drop (length sign) s;
          ds = takeWhile isDigit r
      in if ds = [] then None else Some (sign @ ds, dropWhile isDigit r))"

text \<open>The first alternative, with its two groups.\<close>

definition matchTwoGroups :: "string \<Rightarrow> (string \<times> string) option" where
  "matchTwoGroups term =
     (case signedDigits term of
        None \<Rightarrow> None
      | Some (g1, r1) \<Rightarrow>
          (case r1 of
             [] \<Rightarrow> None
           | c # r2 \<Rightarrow>
               if c = CHR ''-''
               then (case signedDigits r2 of
                       None \<Rightarrow> None
                     | Some (g2, r3) \<Rightarrow> if r3 = [] then Some (g1, g2) else None)
               else None))"

text \<open>The second alternative, with its group: the digits without the sign.\<close>

definition matchSingle :: "string \<Rightarrow> string option" where
  "matchSingle term =
     (let r = (if term \<noteq> [] \<and> hd term = CHR ''-'' then tl term else term)
      in if r \<noteq> [] \<and> list_all isDigit r then Some r else None)"

definition extractRange :: "string \<Rightarrow> string \<times> string" where
  "extractRange term =
     (case matchTwoGroups term of
        Some (g1, g2) \<Rightarrow> (g1, g2)
      | None \<Rightarrow> (case matchSingle term of Some g3 \<Rightarrow> (g3, []) | None \<Rightarrow> ([], [])))"

subsection \<open>The year condition of byYear\<close>

text \<open>\<^verbatim>\<open>strings.TrimRight(s, "*")\<close> and \<^verbatim>\<open>strings.Split(s, "-")\<close>.\<close>

definition TrimRightStars :: "string \<Rightarrow> string" where
  "TrimRightStars s = rev (dropWhile isStar (rev s))"

fun Split_loop :: "char \<Rightarrow> string \<Rightarrow> string \<Rightarrow> string list" where
  "Split_loop sep cur [] = [cur]"
| "Split_loop sep cur (c # cs) =
     (if c = sep then cur # Split_loop sep [] cs else Split_loop sep (cur @ [c]) cs)"

definition Split :: "string \<Rightarrow> char \<Rightarrow> string list" where
  "Split s sep = Split_loop sep [] s"

text \<open>
  The condition on \<open>y.year\<close> that \<^verbatim>\<open>byYear\<close> (and \<^verbatim>\<open>getEventsByYearWithoutCounters\<close>, by
  the same lines) writes into the WHERE clause: \<open>Between lo hi\<close> stands for
  \<^verbatim>\<open>y.year BETWEEN 'lo' AND 'hi'\<close> and \<open>LikeText p\<close> for
  \<^verbatim>\<open>CAST(y.year as TEXT) LIKE 'p'\<close>.
\<close>

datatype YearCond = Between string string | LikeText string

definition asteriskCount :: "string \<Rightarrow> nat" where
  "asteriskCount yearTerm = length yearTerm - length (TrimRightStars yearTerm)"

definition yearPrefix :: "string \<Rightarrow> string" where
  "yearPrefix yearTerm = take (length yearTerm - asteriskCount yearTerm) yearTerm"

definition yearCondition :: "string \<Rightarrow> YearCond" where
  "yearCondition yearTerm =
     (let wildcards = replicate (asteriskCount yearTerm) CHR ''_'' in
      if count_list yearTerm CHR ''-'' = 1 \<and> \<not> prefix ''-'' yearTerm
      then (let parts = Split yearTerm CHR ''-'' in Between (parts ! 0) (parts ! 1))
      else if count_list yearTerm CHR ''-'' > 1
      then (case extractRange yearTerm of (start, end) \<Rightarrow> Between start end)
      else LikeText (yearPrefix yearTerm @ wildcards))"

subsection \<open>The store's reading of a year condition\<close>

text \<open>
  Modelled from the spec: the table \<open>years\<close> is created by the database generator, which is
  not among the sources; by the spec (section 3) a year is a signed integer, and the code
  scans \<open>y.year\<close> into an integer. SQLite then reads the two conditions as follows.
  \<^item> In a comparison of an integer column with a text literal the literal is converted to
    a number when it is the text of one (over the characters of a year token: an optional
    hyphen and digits); a literal that is not stays text, and every integer is smaller
    than every text.
  \<^item> \<^verbatim>\<open>CAST(y.year as TEXT)\<close> is the decimal text of the year, and \<^verbatim>\<open>LIKE\<close> matches it
    against the pattern, in which \<open>_\<close> stands for any one character and \<open>%\<close> for any
    sequence, letters compared without case (the code sets
    \<^verbatim>\<open>PRAGMA case_sensitive_like=OFF\<close>).
\<close>

definition digitVal :: "char \<Rightarrow> nat" where
  "digitVal c =
     (case map_of (zip ''0123456789'' [0, 1, 2, 3, 4, 5, 6, 7, 8, 9]) c of
        Some d \<Rightarrow> d
      | None \<Rightarrow> 0)"

definition natOfDigits :: "string \<Rightarrow> nat" where
  "natOfDigits ds = foldl (\<lambda>acc c. 10 * acc + digitVal c) 0 ds"

definition textToInt :: "string \<Rightarrow> int option" where
  "textToInt s =
     (if s \<noteq> [] \<and> hd s = CHR ''-''
      then (if tl s \<noteq> [] \<and> list_all isDigit (tl s) then Some (- int (natOfDigits (tl s))) else None)
      else (if s \<noteq> [] \<and> list_all isDigit s then Some (int (natOfDigits s)) else None))"

definition sqlGe :: "int \<Rightarrow> string \<Rightarrow> bool" where
  "sqlGe year lit = (case textToInt lit of Some n \<Rightarrow> n \<le> year | None \<Rightarrow> False)"

definition sqlLe :: "int \<Rightarrow> string \<Rightarrow> bool" where
  "sqlLe year lit = (case textToInt lit of Some n \<Rightarrow> year \<le> n | None \<Rightarrow> True)"

fun sqlLike :: "string \<Rightarrow> string \<Rightarrow> bool" where
  "sqlLike [] s = (s = [])"
| "sqlLike (p # ps) [] = (p = CHR ''%'' \<and> sqlLike ps [])"
| "sqlLike (p # ps) (c # cs) =
     (if p = CHR ''%'' then sqlLike ps (c # cs) \<or> sqlLike (p # ps) cs
      else (p = CHR ''_'' \<or> toLowerChar p = toLowerChar c) \<and> sqlLike ps cs)"

fun yearMatches :: "YearCond \<Rightarrow> int \<Rightarrow> bool" where
  "yearMatches (Between lo hi) year = (sqlGe year lo \<and> sqlLe year hi)"
| "yearMatches (LikeText p) year = sqlLike p (Itoa year)"

subsection \<open>Configuration, rows and result items\<close>

record Config =
  cfg_MySource :: string
  cfg_MyRulerID :: string
  cfg_MyTitle :: string
  cfg_MyTitleProg :: string
  cfg_DBPath :: string
  cfg_ShowEvents :: bool

text \<open>Go maps written as literals are association lists, in the order of the literal.\<close>

record AlfredMod =
  mod_Valid :: bool
  mod_Arg :: string
  mod_Subtitle :: string
  mod_Variables :: "(string \<times> string) list"

record AlfredItem =
  it_Title :: string
  it_Subtitle :: string
  it_Valid :: bool
  it_Arg :: string
  it_Mods :: "(string \<times> AlfredMod) list"
  it_Icon :: "(string \<times> string) list"

record RulerRow =
  rr_RulerID :: int
  rr_Name :: string
  rr_PersonalName :: "string option"
  rr_Epithet :: "string option"
  rr_Wikipedia :: "string option"
  rr_Notes :: "string option"
  rr_Biography :: "string option"
  rr_PeriodID :: int
  rr_TitleID :: int
  rr_Title :: string
  rr_TitlePlural :: "string option"
  rr_TitleCount :: int
  rr_Period :: string
  rr_ProgrTitle :: int
  rr_StartYear :: int
  rr_EndYear :: int
  rr_Year :: "int option"
  rr_ConcatenatedTitles :: "string option"
  rr_ConcatenatedNotes :: "string option"

subsection \<open>The store\<close>

text \<open>
  What the program reads from outside. \<open>periodTable\<close> is the join of the tables \<open>rulers\<close>,
  \<open>byPeriod\<close> and \<open>titles\<close>, one decoded row per period. \<open>yearRows c terms\<close> are the rows
  the query of \<^verbatim>\<open>byYear\<close> returns for the year condition \<open>c\<close> and the text terms, or
  \<open>None\<close> when the query fails. The three helper functions of the source that run one
  query and format its rows (\<^verbatim>\<open>getRulerResultsWithoutCounters\<close>,
  \<^verbatim>\<open>byEventWithoutCounters\<close>, \<^verbatim>\<open>getEventsByYearWithoutCounters\<close>) are taken by their results:
  the items they return for their arguments. \<open>iconExists\<close> tells whether \<^verbatim>\<open>os.Stat\<close> finds
  the icon file. The database is present and opens.
\<close>

record Store =
  periodTable :: "RulerRow list"
  yearRows :: "YearCond \<Rightarrow> string list \<Rightarrow> RulerRow list option"
  getRulerResultsWithoutCounters :: "string list \<Rightarrow> string \<Rightarrow> AlfredItem list"
  byEventWithoutCounters :: "string list \<Rightarrow> string \<Rightarrow> AlfredItem list"
  getEventsByYearWithoutCounters :: "string list \<Rightarrow> string \<Rightarrow> string \<Rightarrow> AlfredItem list"
  iconExists :: "string \<Rightarrow> bool"

subsection \<open>Small helpers\<close>

definition getTitlePlural :: "string option \<Rightarrow> string \<Rightarrow> string" where
  "getTitlePlural titlePlural title =
     (case titlePlural of
        Some s \<Rightarrow> if s \<noteq> [] then s else title @ ''s''
      | None \<Rightarrow> title @ ''s'')"

text \<open>The \<open>String\<close> field of a \<^verbatim>\<open>sql.NullString\<close> (empty when NULL) and its test \<open>Valid && String != ""\<close>.\<close>

definition nullString :: "string option \<Rightarrow> string" where
  "nullString v = (case v of Some s \<Rightarrow> s | None \<Rightarrow> [])"

definition present :: "string option \<Rightarrow> bool" where
  "present v \<longleftrightarrow> (case v of Some s \<Rightarrow> s \<noteq> [] | None \<Rightarrow> False)"

text \<open>
  \<^verbatim>\<open>strconv.Atoi\<close> with its error dropped: 0 on a text that is not a decimal integer (an
  optional sign and digits), the nearest 64-bit integer on one that is out of range.
\<close>

definition Atoi :: "string \<Rightarrow> int" where
  "Atoi s =
     (let r = (if s \<noteq> [] \<and> (hd s = CHR ''+'' \<or> hd s = CHR ''-'') then tl s else s) in
      if r \<noteq> [] \<and> list_all isDigit r
      then (let n = (if s \<noteq> [] \<and> hd s = CHR ''-'' then - int (natOfDigits r) else int (natOfDigits r))
            in max (- (2 ^ 63)) (min (2 ^ 63 - 1) n))
      else 0)"

subsection \<open>The unified counters and the placeholder item\<close>

text \<open>The loop \<^verbatim>\<open>for i := range result.Items\<close> that writes the counters; \<open>i\<close> is the index of the head.\<close>

fun addCounters_loop :: "nat \<Rightarrow> nat \<Rightarrow> AlfredItem list \<Rightarrow> AlfredItem list" where
  "addCounters_loop totalCount i [] = []"
| "addCounters_loop totalCount i (item # items) =
     item\<lparr>it_Subtitle :=
        (if it_Subtitle item \<noteq> []
         then formatNumber (int i + 1) @ ''/'' @ formatNumber (int totalCount) @ '' '' @ it_Subtitle item
         else formatNumber (int i + 1) @ ''/'' @ formatNumber (int totalCount))\<rparr>
     # addCounters_loop totalCount (Suc i) items"

definition addCounters :: "AlfredItem list \<Rightarrow> AlfredItem list" where
  "addCounters items = addCounters_loop (length items) 0 items"

definition goBackMod :: "string \<Rightarrow> AlfredMod" where
  "goBackMod originalQuery =
     \<lparr>mod_Valid = True, mod_Arg = originalQuery, mod_Subtitle = ''Go back to main search'',
      mod_Variables = [(''mySource'', []), (''myRulerID'', []), (''mytitleProg'', []),
                       (''myTitle'', []), (''restoredQuery'', originalQuery)]\<rparr>"

text \<open>
  The item appended when nothing was found. Its title ends with the four bytes of an
  emoji; \<open>Valid\<close> is not set in the source and so is false.
\<close>

definition noResultsItem :: "string \<Rightarrow> AlfredItem" where
  "noResultsItem originalQuery =
     \<lparr>it_Title = ''No results here '' @ [CHR 0xF0, CHR 0x9F, CHR 0xAB, CHR 0xA4],
      it_Subtitle = ''Try a different query'',
      it_Valid = False,
      it_Arg = [],
      it_Mods = [(''cmd+alt'', goBackMod originalQuery)],
      it_Icon = [(''path'', ''icons/hopeless.png'')]\<rparr>"

subsection \<open>byYear\<close>

definition travelMod :: "string \<Rightarrow> (string \<times> string) list \<Rightarrow> AlfredMod" where
  "travelMod year vars =
     \<lparr>mod_Valid = True, mod_Arg = year, mod_Subtitle = ''travel to '' @ year, mod_Variables = vars\<rparr>"

definition showAllMod :: "string \<Rightarrow> int \<Rightarrow> int \<Rightarrow> string \<Rightarrow> string \<Rightarrow> AlfredMod" where
  "showAllMod plural rulerID progrTitle title originalQuery =
     \<lparr>mod_Valid = True, mod_Arg = plural, mod_Subtitle = ''Show all '' @ plural,
      mod_Variables = [(''mySource'', ''ruler''), (''myRulerID'', Itoa rulerID),
                       (''mytitleProg'', Itoa progrTitle), (''myTitle'', title),
                       (''originalQuery'', originalQuery)]\<rparr>"

definition copyMod :: "string \<Rightarrow> AlfredMod" where
  "copyMod text =
     \<lparr>mod_Valid = True, mod_Arg = text, mod_Subtitle = ''Copy full info to clipboard'',
      mod_Variables = []\<rparr>"

definition wikilink :: "string option \<Rightarrow> string \<Rightarrow> string" where
  "wikilink wikipedia name =
     (if present wikipedia then nullString wikipedia else ''https://en.wikipedia.org/wiki/'' @ name)"

definition iconPath :: "Store \<Rightarrow> string \<Rightarrow> string" where
  "iconPath db title =
     (if iconExists db (''icons/'' @ title @ ''.png'') then ''icons/'' @ title @ ''.png''
      else ''icons/crown.png'')"

text \<open>The item the loop of \<^verbatim>\<open>byYear\<close> over \<open>allRows\<close> builds from one row.\<close>

definition yearItem :: "Store \<Rightarrow> Config \<Rightarrow> string \<Rightarrow> string \<Rightarrow> RulerRow \<Rightarrow> AlfredItem" where
  "yearItem db config yearTerm originalQuery r =
     (let isRange = (CHR ''-'' \<in> set yearTerm);
          yearString = (if asteriskCount yearTerm > 0 \<or> isRange then yearTerm
                        else formatYear (case rr_Year r of Some y \<Rightarrow> y | None \<Rightarrow> 0));
          epithetString = (if present (rr_Epithet r) then '' ('' @ nullString (rr_Epithet r) @ '')'' else []);
          myTitle = yearString @ '': '' @ rr_Name r @ epithetString @ '' ('' @ rr_Period r @ '')'';
          counter = '' ('' @ formatNumber (rr_ProgrTitle r) @ ''/'' @ formatNumber (rr_TitleCount r) @ '') '';
          subtitleString =
            (if present (rr_PersonalName r)
             then nullString (rr_PersonalName r) @ '', '' @ rr_Title r @ counter @ nullString (rr_Notes r)
             else rr_Title r @ counter @ nullString (rr_Notes r));
          endYear = Itoa (rr_EndYear r);
          startYear = Itoa (rr_StartYear r);
          plural = getTitlePlural (rr_TitlePlural r) (rr_Title r)
      in \<lparr>it_Title = myTitle,
          it_Subtitle = subtitleString,
          it_Valid = True,
          it_Arg = wikilink (rr_Wikipedia r) (rr_Name r),
          it_Mods = [(''cmd'', travelMod endYear [(cfg_MySource config, [])]),
                     (''ctrl'', travelMod startYear [(cfg_MySource config, [])]),
                     (''alt'', showAllMod plural (rr_RulerID r) (rr_ProgrTitle r) (rr_Title r) originalQuery),
                     (''cmd+alt'', goBackMod originalQuery),
                     (''shift'', copyMod (myTitle @ '': '' @ subtitleString))],
          it_Icon = [(''path'', iconPath db (rr_Title r))]\<rparr>)"

text \<open>\<^verbatim>\<open>byYear\<close>; \<open>None\<close> is the return without output when the query fails.\<close>

definition byYear :: "Store \<Rightarrow> string list \<Rightarrow> string \<Rightarrow> Config \<Rightarrow> string \<Rightarrow> AlfredItem list option" where
  "byYear db searchTerms yearTerm config originalQuery =
     (case yearRows db (yearCondition yearTerm) searchTerms of
        None \<Rightarrow> None
      | Some allRows \<Rightarrow>
          (let rulerItems = map (yearItem db config yearTerm originalQuery) allRows;
               merged = (if cfg_ShowEvents config
                         then rulerItems @ getEventsByYearWithoutCounters db searchTerms yearTerm originalQuery
                         else rulerItems);
               counted = addCounters merged
           in Some (if yearTerm \<noteq> [] \<and> counted = [] then counted @ [noResultsItem originalQuery]
                    else counted)))"

subsection \<open>byRuler: the lineage of a title\<close>

text \<open>
  The first query of the lineage: the least progression number of the ruler under the
  title, \<open>None\<close> when the ruler has no period under it (\<^verbatim>\<open>Scan\<close> then fails and the
  function returns).
\<close>

definition progQuery :: "Store \<Rightarrow> int \<Rightarrow> string \<Rightarrow> int option" where
  "progQuery db rulerID title =
     (case sort (map rr_ProgrTitle
                   (filter (\<lambda>r. rr_RulerID r = rulerID \<and> rr_Title r = title) (periodTable db))) of
        [] \<Rightarrow> None
      | p # ps \<Rightarrow> Some p)"

text \<open>
  The second query: every period of the title, in ascending order of progression number
  (rows with the same number keep the order of the table).
\<close>

definition lineageQuery :: "Store \<Rightarrow> string \<Rightarrow> RulerRow list" where
  "lineageQuery db title = sort_key rr_ProgrTitle (filter (\<lambda>r. rr_Title r = title) (periodTable db))"

text \<open>The search for the current ruler: the index of the first matching row, or -1.\<close>

fun findCurrentIdx :: "int \<Rightarrow> int \<Rightarrow> int \<Rightarrow> RulerRow list \<Rightarrow> int" where
  "findCurrentIdx myRulerID myProg i [] = - 1"
| "findCurrentIdx myRulerID myProg i (r # rs) =
     (if rr_RulerID r = myRulerID \<and> rr_ProgrTitle r = myProg then i
      else findCurrentIdx myRulerID myProg (i + 1) rs)"

definition lineageItem :: "Store \<Rightarrow> int \<Rightarrow> string \<Rightarrow> RulerRow \<Rightarrow> AlfredItem" where
  "lineageItem db myRulerID origQuery r =
     (let rulerStar = (if rr_RulerID r = myRulerID then [CHR 0xF0, CHR 0x9F, CHR 0x8C, CHR 0x9F] else []);
          myTitle = rr_Name r @ '' ('' @ rr_Period r @ '') '' @ rulerStar;
          counterPrefix = formatNumber (rr_ProgrTitle r) @ ''/'' @ formatNumber (rr_TitleCount r);
          notesPart = (if present (rr_Notes r) \<and> nullString (rr_Notes r) \<noteq> '','' then nullString (rr_Notes r) else []);
          subtitleString =
            (if present (rr_Biography r) then counterPrefix @ '' '' @ nullString (rr_Biography r)
             else if present (rr_PersonalName r)
             then counterPrefix @ '' '' @ nullString (rr_PersonalName r) @ '', '' @ rr_Title r @ '' '' @ notesPart
             else counterPrefix @ '' '' @ rr_Title r @ '' '' @ notesPart);
          endYear = Itoa (rr_EndYear r);
          startYear = Itoa (rr_StartYear r);
          plural = getTitlePlural (rr_TitlePlural r) (rr_Title r)
      in \<lparr>it_Title = myTitle,
          it_Subtitle = subtitleString,
          it_Valid = True,
          it_Arg = wikilink (rr_Wikipedia r) (rr_Name r),
          it_Mods = [(''cmd'', travelMod endYear [(''mySource'', [])]),
                     (''ctrl'', travelMod startYear [(''mySource'', [])]),
                     (''alt'', showAllMod plural (rr_RulerID r) (rr_ProgrTitle r) (rr_Title r) origQuery),
                     (''cmd+alt'', goBackMod origQuery),
                     (''shift'', copyMod (myTitle @ '': '' @ subtitleString))],
          it_Icon = [(''path'', iconPath db (rr_Title r))]\<rparr>)"

text \<open>
  \<^verbatim>\<open>byRuler\<close>. The branch \<open>searchRuler\<close> builds a condition string and drops it (the source
  marks it TODO), so it prints nothing; so does any other query type. In the branch
  \<open>listLineage\<close> the loop from \<open>startIdx\<close> to \<open>endIdx\<close> ranges over
  \<open>lineageRows[startIdx:]\<close>.
\<close>

definition byRuler :: "Store \<Rightarrow> string list \<Rightarrow> string \<Rightarrow> Config \<Rightarrow> string \<Rightarrow> AlfredItem list option" where
  "byRuler db searchStringList queryType config origQuery =
     (if queryType = ''searchRuler'' then None
      else if queryType = ''listLineage''
      then (let myRulerID = Atoi (cfg_MyRulerID config) in
            case progQuery db myRulerID (cfg_MyTitle config) of
              None \<Rightarrow> None
            | Some currentProg \<Rightarrow>
                (let lineageRows = lineageQuery db (cfg_MyTitle config);
                     myProg = Atoi (cfg_MyTitleProg config);
                     found = findCurrentIdx myRulerID myProg 0 lineageRows;
                     currentIdx = (if found = - 1 then 0 else found);
                     startIdx = (if currentIdx - 3 < 0 then 0 else currentIdx - 3)
                 in Some (map (lineageItem db myRulerID origQuery) (drop (nat startIdx) lineageRows))))
      else None)"

subsection \<open>main\<close>

text \<open>
  \<^verbatim>\<open>main\<close> from the point where the input is known: \<open>input\<close> is the argument (or the restored
  query) lower-cased and trimmed, \<open>originalQueryFromEnv\<close> the environment variable
  \<open>originalQuery\<close>. The result is the batch printed, \<open>None\<close> when nothing is printed.
\<close>

definition searchTermsWN :: "string list \<Rightarrow> string \<Rightarrow> string list" where
  "searchTermsWN searchTerms matchedTerm = filter (\<lambda>term. term \<noteq> matchedTerm) searchTerms"

definition main :: "Store \<Rightarrow> Config \<Rightarrow> string \<Rightarrow> string \<Rightarrow> AlfredItem list option" where
  "main db config originalQueryFromEnv input =
     (if cfg_MySource config = ''ruler''
      then (if originalQueryFromEnv \<noteq> [] then byRuler db [] ''listLineage'' config originalQueryFromEnv
            else byRuler db [] ''listLineage'' config input)
      else if input = [] then None
      else (let searchTerms = Fields input;
                criteriaTerms = filter isNumberLike searchTerms
            in if criteriaTerms \<noteq> []
               then (let matchedTerm = hd criteriaTerms
                     in byYear db (searchTermsWN searchTerms matchedTerm) matchedTerm config input)
               else if cfg_ShowEvents config
               then (let merged = getRulerResultsWithoutCounters db searchTerms input
                                    @ byEventWithoutCounters db searchTerms input;
                         counted = addCounters merged
                     in Some (if counted = [] then counted @ [noResultsItem input] else counted))
               else byRuler db searchTerms ''searchRuler'' config input))"

section \<open>Properties\<close>

subsection \<open>Evaluating the decimal rendering\<close>

lemma digits_0 [simp]: "digits 0 = ''0''"
  by (simp add: digits.simps [of 0] digitChar_def)

lemma digits_1 [simp]: "digits (Suc 0) = ''1''"
  by (simp add: digits.simps [of "Suc 0"] digitChar_def)

lemma digits_numeral [simp]:
  "digits (numeral k) =
     (if (numeral k :: nat) < 10 then [digitChar (numeral k)]
      else digits (numeral k div 10) @ [digitChar (numeral k mod 10)])"
  by (rule digits.simps)

subsection \<open>Rendering of years\<close>

lemma neg64_in_range: "- (2 ^ 63) < y \<Longrightarrow> y < 0 \<Longrightarrow> neg64 y = - y"
  by (simp add: neg64_def wrap64_def)

text \<open>
  C10. \<^verbatim>\<open>formatYear\<close> renders a negative year as the decimal string of its negation followed
  by \<open>BC\<close>, and a year from 0 on as its plain decimal string; year 0 is \<open>0\<close>. The negation
  is Go's, on 64 bits: for every negative year above the least 64-bit integer it is the
  mathematical one, so that the digits of the absolute value are printed with no sign.
\<close>

theorem formatYear_rendering:
  "(y < 0 \<longrightarrow> formatYear y = Itoa (neg64 y) @ '' BC'')
   \<and> (- (2 ^ 63) < y \<and> y < 0 \<longrightarrow> formatYear y = digits (nat (- y)) @ '' BC'')
   \<and> (0 \<le> y \<longrightarrow> formatYear y = digits (nat y))
   \<and> formatYear 0 = ''0''"
  by (simp add: formatYear_def neg64_in_range Itoa_def)

theorem formatYear_rendering_witness:
  "formatYear (- 44) = ''44 BC'' \<and> formatYear 1789 = ''1789'' \<and> formatYear 0 = ''0''"
  using formatYear_rendering [of "- 44"] formatYear_rendering [of 1789]
  by (simp add: digitChar_def neg64_def wrap64_def Itoa_def)

subsection \<open>Title ranks\<close>

lemma Contains_iff: "Contains s sub \<longleftrightarrow> (\<exists>pre post. s = pre @ sub @ post)"
proof (induction s)
  case Nil
  then show ?case by simp
next
  case (Cons c cs)
  have "(\<exists>pre post. c # cs = pre @ sub @ post)
          \<longleftrightarrow> prefix sub (c # cs) \<or> (\<exists>pre post. cs = pre @ sub @ post)"
  proof
    assume "\<exists>pre post. c # cs = pre @ sub @ post"
    then obtain pre post where e: "c # cs = pre @ sub @ post" by blast
    show "prefix sub (c # cs) \<or> (\<exists>pre post. cs = pre @ sub @ post)"
    proof (cases pre)
      case Nil
      then show ?thesis using e by (auto simp: prefix_def)
    next
      case (Cons a pre')
      then have "cs = pre' @ sub @ post" using e by simp
      then show ?thesis by blast
    qed
  next
    assume "prefix sub (c # cs) \<or> (\<exists>pre post. cs = pre @ sub @ post)"
    then show "\<exists>pre post. c # cs = pre @ sub @ post"
    proof
      assume "prefix sub (c # cs)"
      then obtain post where "c # cs = [] @ sub @ post" by (auto simp: prefix_def)
      then show ?thesis by blast
    next
      assume "\<exists>pre post. cs = pre @ sub @ post"
      then obtain pre post where "cs = pre @ sub @ post" by blast
      then have "c # cs = (c # pre) @ sub @ post" by simp
      then show ?thesis by blast
    qed
  qed
  then show ?case using Cons by simp
qed

lemma Contains_holy: "Contains s ''holy roman emperor'' \<Longrightarrow> Contains s ''roman emperor''"
proof -
  assume "Contains s ''holy roman emperor''"
  then obtain pre post where "s = pre @ ''holy roman emperor'' @ post"
    unfolding Contains_iff by blast
  then have "s = (pre @ ''holy '') @ ''roman emperor'' @ post" by simp
  then show ?thesis unfolding Contains_iff by blast
qed

text \<open>
  C4. The table gives \<open>Holy Roman Emperor\<close> the rank 3, and \<^verbatim>\<open>getTitleRank\<close> has a branch
  returning 3 for it; but the branch for \<open>roman emperor\<close> is tested first and every title
  containing \<open>holy roman emperor\<close> contains \<open>roman emperor\<close>: the function returns 1 for
  \<open>Holy Roman Emperor\<close>, and it returns 3 for no title at all.
\<close>

theorem getTitleRank_holy_roman_emperor:
  "getTitleRank ''Holy Roman Emperor'' = 1 \<and> getTitleRank title \<noteq> 3"
proof
  show "getTitleRank ''Holy Roman Emperor'' = 1"
    by (simp add: getTitleRank_def ToLower_def toLowerChar_def)
  show "getTitleRank title \<noteq> 3"
    using Contains_holy [of "ToLower title"] by (simp add: getTitleRank_def Let_def)
qed

subsection \<open>The sorting loops of formatSubtitle\<close>

declare sortInner.simps [simp del] sortOuter.simps [simp del]

lemma sortInner_length [simp]: "length (sortInner i j gs) = length gs"
proof (induction i j gs rule: sortInner.induct)
  case (1 i j gs)
  show ?case
  proof (cases "j < length gs")
    case True
    with 1 show ?thesis by (subst sortInner.simps) simp
  next
    case False
    then show ?thesis by (subst sortInner.simps) simp
  qed
qed












subsection \<open>Grouping by title\<close>




subsection \<open>Order of the title groups in the subtitle\<close>







subsection \<open>The parsers and the shape of year-like tokens\<close>

lemma optChr_iff: "r \<in> set (optChr c s) \<longleftrightarrow> s = r \<or> s = c # r"
  by (auto simp: optChr_def split: list.splits)

lemma chr_iff: "r \<in> set (chr c s) \<longleftrightarrow> s = c # r"
  by (auto simp: chr_def split: list.splits)

lemma many_iff: "r \<in> set (many P s) \<longleftrightarrow> (\<exists>u. s = u @ r \<and> list_all P u)"
proof (induction s)
  case Nil
  then show ?case by auto
next
  case (Cons x xs)
  show ?case
  proof (cases "P x")
    case True
    have "(\<exists>u. x # xs = u @ r \<and> list_all P u) \<longleftrightarrow> r = x # xs \<or> (\<exists>u. xs = u @ r \<and> list_all P u)"
      using True by (auto simp: Cons_eq_append_conv)
    then show ?thesis using True Cons by auto
  next
    case False
    have "(\<exists>u. x # xs = u @ r \<and> list_all P u) \<longleftrightarrow> r = x # xs"
      using False by (auto simp: Cons_eq_append_conv)
    then show ?thesis using False by auto
  qed
qed

lemma andThen_iff: "r \<in> set (andThen p q s) \<longleftrightarrow> (\<exists>m \<in> set (p s). r \<in> set (q m))"
  by (auto simp: andThen_def)

lemma yearPart_iff:
  "r \<in> set (yearPart s) \<longleftrightarrow>
     (\<exists>sg ds st. s = sg @ ds @ st @ r \<and> (sg = [] \<or> sg = ''-'') \<and> list_all isDigit ds \<and> list_all isStar st)"
  (is "?L \<longleftrightarrow> ?R")
proof
  assume ?L
  then obtain m1 m2 where m: "m1 \<in> set (optChr CHR ''-'' s)" "m2 \<in> set (many isDigit m1)"
      "r \<in> set (many isStar m2)"
    by (auto simp: yearPart_def andThen_iff)
  from m(2) obtain ds where ds: "m1 = ds @ m2" "list_all isDigit ds" by (auto simp: many_iff)
  from m(3) obtain st where st: "m2 = st @ r" "list_all isStar st" by (auto simp: many_iff)
  from m(1) have "s = m1 \<or> s = CHR ''-'' # m1" by (simp add: optChr_iff)
  then show ?R
  proof
    assume "s = m1"
    then have "s = [] @ ds @ st @ r" using ds st by simp
    then show ?R using ds st by blast
  next
    assume "s = CHR ''-'' # m1"
    then have "s = ''-'' @ ds @ st @ r" using ds st by simp
    then show ?R using ds st by blast
  qed
next
  assume ?R
  then obtain sg ds st where h: "s = sg @ ds @ st @ r" "sg = [] \<or> sg = ''-''"
      "list_all isDigit ds" "list_all isStar st"
    by blast
  have 1: "ds @ st @ r \<in> set (optChr CHR ''-'' s)" using h(1,2) by (auto simp: optChr_iff)
  have 2: "st @ r \<in> set (many isDigit (ds @ st @ r))" using h(3) by (auto simp: many_iff)
  have 3: "r \<in> set (many isStar (st @ r))" using h(4) by (auto simp: many_iff)
  show ?L unfolding yearPart_def andThen_iff using 1 2 3 by blast
qed


lemma isDigit_not_hyphen: "isDigit c \<Longrightarrow> c \<noteq> CHR ''-''"
  by (auto simp: isDigit_def)



subsection \<open>Decimal texts and their values\<close>








subsection \<open>The wildcard branch of the year condition\<close>


lemma count_hyphen_digits: "list_all isDigit ds \<Longrightarrow> count_list ds CHR ''-'' = 0"
  by (induction ds) (auto dest: isDigit_not_hyphen)










subsection \<open>The range branches of the year condition\<close>

lemma textToInt_shape:
  assumes "textToInt s = Some a"
  shows "\<exists>sg ds. s = sg @ ds \<and> (sg = [] \<or> sg = ''-'') \<and> ds \<noteq> [] \<and> list_all isDigit ds"
proof (cases "s \<noteq> [] \<and> hd s = CHR ''-''")
  case True
  then have "s = ''-'' @ tl s" by (cases s) auto
  moreover have "tl s \<noteq> [] \<and> list_all isDigit (tl s)"
    using assms True by (auto simp: textToInt_def split: if_splits)
  ultimately show ?thesis by blast
next
  case False
  then have "s \<noteq> [] \<and> list_all isDigit s"
    using assms by (auto simp: textToInt_def split: if_splits)
  then have "s = [] @ s \<and> s \<noteq> [] \<and> list_all isDigit s" by simp
  then show ?thesis by blast
qed

lemma takeWhile_digits:
  assumes "list_all isDigit ds" and "rest = [] \<or> \<not> isDigit (hd rest)"
  shows "takeWhile isDigit (ds @ rest) = ds" and "dropWhile isDigit (ds @ rest) = rest"
proof -
  have a: "\<forall>x \<in> set ds. isDigit x" using assms(1) by (simp add: list_all_iff)
  have "takeWhile isDigit rest = []" "dropWhile isDigit rest = rest"
    using assms(2) by (cases rest; simp)+
  then show "takeWhile isDigit (ds @ rest) = ds" "dropWhile isDigit (ds @ rest) = rest"
    using a by (simp_all add: takeWhile_append2 dropWhile_append2)
qed

lemma signedDigits_head:
  assumes "sg = [] \<or> sg = ''-''" and "ds \<noteq> []" and "list_all isDigit ds"
    and "rest = [] \<or> \<not> isDigit (hd rest)"
  shows "signedDigits (sg @ ds @ rest) = Some (sg @ ds, rest)"
proof -
  have hd: "hd (ds @ rest) \<noteq> CHR ''-''"
    using assms(2,3) isDigit_not_hyphen [of "hd ds"] by (cases ds) auto
  from assms(1) show ?thesis
  proof
    assume "sg = []"
    then show ?thesis
      using hd assms(2) takeWhile_digits [OF assms(3,4)] by (simp add: signedDigits_def)
  next
    assume "sg = ''-''"
    then show ?thesis
      using assms(2) takeWhile_digits [OF assms(3,4)] by (simp add: signedDigits_def)
  qed
qed

lemma matchTwoGroups_range:
  assumes "textToInt sa = Some a" and "textToInt sb = Some b"
  shows "matchTwoGroups (sa @ ''-'' @ sb) = Some (sa, sb)"
proof -
  obtain sg ds where sa: "sa = sg @ ds" "sg = [] \<or> sg = ''-''" "ds \<noteq> []" "list_all isDigit ds"
    using textToInt_shape [OF assms(1)] by blast
  obtain sg' ds' where sb: "sb = sg' @ ds'" "sg' = [] \<or> sg' = ''-''" "ds' \<noteq> []" "list_all isDigit ds'"
    using textToInt_shape [OF assms(2)] by blast
  have 1: "signedDigits (sa @ ''-'' @ sb) = Some (sa, ''-'' @ sb)"
    using signedDigits_head [OF sa(2,3,4), of "''-'' @ sb"] sa(1)
    by (simp add: isDigit_def)
  have 2: "signedDigits sb = Some (sb, [])"
    using signedDigits_head [OF sb(2,3,4), of "[]"] sb(1) by simp
  show ?thesis unfolding matchTwoGroups_def 1 using 2 by simp
qed

lemma Split_loop_skip: "sep \<notin> set u \<Longrightarrow> Split_loop sep cur (u @ rest) = Split_loop sep (cur @ u) rest"
  by (induction u arbitrary: cur) auto

lemma Split_two:
  assumes "sep \<notin> set u" and "sep \<notin> set v"
  shows "Split (u @ sep # v) sep = [u, v]"
proof -
  have "Split_loop sep [] (u @ sep # v) = u # Split_loop sep [] v"
    using Split_loop_skip [OF assms(1), of "[]" "sep # v"] by simp
  moreover have "Split_loop sep [] v = [v]"
    using Split_loop_skip [OF assms(2), of "[]" "[]"] by simp
  ultimately show ?thesis by (simp add: Split_def)
qed

lemma hyphen_not_in_digits: "list_all isDigit ds \<Longrightarrow> CHR ''-'' \<notin> set ds"
  by (auto simp: list_all_iff dest: isDigit_not_hyphen)

lemma yearMatches_Between:
  assumes "textToInt sa = Some a" and "textToInt sb = Some b"
  shows "yearMatches (Between sa sb) y \<longleftrightarrow> a \<le> y \<and> y \<le> b"
  using assms by (simp add: sqlGe_def sqlLe_def)

lemma yearCondition_single:
  "count_list t CHR ''-'' = 1 \<Longrightarrow> \<not> prefix ''-'' t \<Longrightarrow>
   yearCondition t = Between (Split t CHR ''-'' ! 0) (Split t CHR ''-'' ! 1)"
  by (simp add: yearCondition_def Let_def)

lemma yearCondition_multi:
  "count_list t CHR ''-'' > 1 \<Longrightarrow>
   yearCondition t = (case extractRange t of (start, end) \<Rightarrow> Between start end)"
  by (simp add: yearCondition_def)

text \<open>
  C6. Let \<open>sa\<close> and \<open>sb\<close> be decimal texts of integers \<open>a\<close> and \<open>b\<close> (an optional hyphen and
  digits). The token \<open>sa-sb\<close> is year-like, its year condition is the range with bounds
  \<open>sa\<close> and \<open>sb\<close>, whether it has one hyphen (both bounds unsigned) or several, and the
  condition selects exactly the years from \<open>a\<close> to \<open>b\<close>, both included.
\<close>

theorem yearCondition_range:
  assumes "textToInt sa = Some a" and "textToInt sb = Some b"
  shows "isNumberLike (sa @ ''-'' @ sb)
         \<and> yearCondition (sa @ ''-'' @ sb) = Between sa sb
         \<and> (yearMatches (yearCondition (sa @ ''-'' @ sb)) y \<longleftrightarrow> a \<le> y \<and> y \<le> b)"
proof -
  let ?t = "sa @ ''-'' @ sb"
  obtain sg ds where sa: "sa = sg @ ds" "sg = [] \<or> sg = ''-''" "ds \<noteq> []" "list_all isDigit ds"
    using textToInt_shape [OF assms(1)] by blast
  obtain sg' ds' where sb: "sb = sg' @ ds'" "sg' = [] \<or> sg' = ''-''" "ds' \<noteq> []" "list_all isDigit ds'"
    using textToInt_shape [OF assms(2)] by blast
  have "''-'' @ sb \<in> set (yearPart ?t)"
    unfolding yearPart_iff using sa by (intro exI [of _ sg] exI [of _ ds] exI [of _ "[]"]) simp
  moreover have "sb \<in> set (chr CHR ''-'' (''-'' @ sb))" by (simp add: chr_iff)
  moreover have "[] \<in> set (yearPart sb)"
    unfolding yearPart_iff using sb by (intro exI [of _ sg'] exI [of _ ds'] exI [of _ "[]"]) simp
  ultimately have nl: "isNumberLike ?t"
    unfolding isNumberLike_def andThen_iff by blast
  have cnt: "count_list ?t CHR ''-'' = length sg + 1 + length sg'"
    using sa sb by (auto simp: count_hyphen_digits)
  have cond: "yearCondition ?t = Between sa sb"
  proof (cases "sg = [] \<and> sg' = []")
    case True
    have p: "\<not> prefix ''-'' ?t"
      using True sa isDigit_not_hyphen [of "hd ds"] by (cases ds) auto
    have c: "count_list ?t CHR ''-'' = 1" using cnt True by simp
    have "Split ?t CHR ''-'' = [sa, sb]"
      using Split_two [of "CHR ''-''" sa sb] True sa sb by (simp add: hyphen_not_in_digits)
    then show ?thesis using yearCondition_single [OF c p] by simp
  next
    case False
    then have c: "count_list ?t CHR ''-'' > 1" using cnt sa(2) sb(2) by auto
    have "extractRange ?t = (sa, sb)"
      using matchTwoGroups_range [OF assms] by (simp add: extractRange_def)
    then show ?thesis using yearCondition_multi [OF c] by simp
  qed
  show ?thesis using nl cond yearMatches_Between [OF assms] by simp
qed

theorem yearCondition_range_witness:
  "textToInt ''1509'' = Some 1509 \<and> textToInt ''1547'' = Some 1547
   \<and> yearCondition ''1509-1547'' = Between ''1509'' ''1547''
   \<and> yearMatches (yearCondition ''1509-1547'') 1509
   \<and> \<not> yearMatches (yearCondition ''1509-1547'') 1548
   \<and> textToInt ''-100'' = Some (- 100) \<and> textToInt ''-50'' = Some (- 50)
   \<and> yearCondition ''-100--50'' = Between ''-100'' ''-50''
   \<and> yearMatches (yearCondition ''-100--50'') (- 50)
   \<and> \<not> yearMatches (yearCondition ''-100--50'') (- 49)"
proof -
  have a: "textToInt ''1509'' = Some 1509" "textToInt ''1547'' = Some 1547"
    by (simp_all add: textToInt_def isDigit_def natOfDigits_def digitVal_def)
  have b: "textToInt ''-100'' = Some (- 100)" "textToInt ''-50'' = Some (- 50)"
    by (simp_all add: textToInt_def isDigit_def natOfDigits_def digitVal_def)
  note ra = yearCondition_range [OF a, simplified]
  note rb = yearCondition_range [OF b, simplified]
  note ma = ra [THEN conjunct2, THEN conjunct2]
  note mb = rb [THEN conjunct2, THEN conjunct2]
  have 1: "yearCondition ''1509-1547'' = Between ''1509'' ''1547''"
    using ra by blast
  have 2: "yearMatches (yearCondition ''1509-1547'') 1509"
    unfolding ma by simp
  have 3: "\<not> yearMatches (yearCondition ''1509-1547'') 1548"
    unfolding ma by simp
  have 4: "yearCondition ''-100--50'' = Between ''-100'' ''-50''"
    using rb by blast
  have 5: "yearMatches (yearCondition ''-100--50'') (- 50)"
    unfolding mb by simp
  have 6: "\<not> yearMatches (yearCondition ''-100--50'') (- 49)"
    unfolding mb by simp
  show ?thesis using a b 1 2 3 4 5 6 by blast
qed

lemma matchSingle_hyphens:
  assumes "matchSingle t = Some r"
  shows "count_list t CHR ''-'' \<le> 1"
proof -
  have r: "list_all isDigit r" and t: "t = r \<or> t = CHR ''-'' # r"
    using assms by (cases t; auto simp: matchSingle_def Let_def split: if_splits)+
  then show ?thesis using count_hyphen_digits [OF r] by auto
qed

text \<open>
  C8 (as amended). A token with more than one hyphen that does not match the two-group
  form is not read as a single year: the single-year form of \<^verbatim>\<open>extractRange\<close> has at most one
  hyphen and cannot match it either, so \<^verbatim>\<open>extractRange\<close> returns two empty strings, the
  year condition is the range with two empty bounds, and it selects no year.
\<close>

theorem yearCondition_unparsable:
  assumes "count_list t CHR ''-'' > 1" and "matchTwoGroups t = None"
  shows "extractRange t = ([], []) \<and> yearCondition t = Between [] []
         \<and> \<not> yearMatches (yearCondition t) y"
proof -
  have "matchSingle t = None"
  proof (cases "matchSingle t")
    case None then show ?thesis .
  next
    case (Some r)
    then show ?thesis using matchSingle_hyphens [of t r] assms(1) by simp
  qed
  then have e: "extractRange t = ([], [])"
    using assms(2) by (simp add: extractRange_def)
  then have c: "yearCondition t = Between [] []"
    using assms(1) by (simp add: yearCondition_def)
  show ?thesis unfolding c using e by (simp add: sqlGe_def textToInt_def)
qed

theorem yearCondition_unparsable_witness:
  "count_list ''-1**--5'' CHR ''-'' > 1 \<and> matchTwoGroups ''-1**--5'' = None
   \<and> yearCondition ''-1**--5'' = Between [] []
   \<and> \<not> yearMatches (yearCondition ''-1**--5'') (- 100)"
proof -
  have c: "count_list ''-1**--5'' CHR ''-'' > 1" by simp
  have m: "matchTwoGroups ''-1**--5'' = None"
    by (simp add: matchTwoGroups_def signedDigits_def isDigit_def)
  show ?thesis using c m yearCondition_unparsable [OF c m, of "- 100"] by blast
qed

text \<open>
  The token \<open>--44\<close> is year-like, has two hyphens and does not match the two-group form.
  Its year condition is not an exact match of a year: it is the range with two empty
  bounds, which selects neither -44 nor 44.
\<close>

theorem yearCondition_fallback_counterexample:
  "isNumberLike ''--44'' \<and> count_list ''--44'' CHR ''-'' = 2 \<and> matchTwoGroups ''--44'' = None
   \<and> extractRange ''--44'' = ([], [])
   \<and> yearCondition ''--44'' = Between [] []
   \<and> \<not> yearMatches (yearCondition ''--44'') (- 44)
   \<and> \<not> yearMatches (yearCondition ''--44'') 44"
  by (simp add: isNumberLike_def yearPart_def andThen_def optChr_def chr_def isStar_def
      yearCondition_def extractRange_def matchTwoGroups_def matchSingle_def signedDigits_def
      isDigit_def sqlGe_def textToInt_def)

subsection \<open>Example data\<close>

text \<open>A store with no rows at all, and the configuration of a plain search (not lineage mode).\<close>

definition emptyStore :: Store where
  "emptyStore =
     \<lparr>periodTable = [], yearRows = (\<lambda>c terms. Some []),
      getRulerResultsWithoutCounters = (\<lambda>terms q. []),
      byEventWithoutCounters = (\<lambda>terms q. []),
      getEventsByYearWithoutCounters = (\<lambda>terms y q. []),
      iconExists = (\<lambda>path. False)\<rparr>"

definition searchConfig :: "bool \<Rightarrow> Config" where
  "searchConfig showEvents =
     \<lparr>cfg_MySource = [], cfg_MyRulerID = [], cfg_MyTitle = [], cfg_MyTitleProg = [],
      cfg_DBPath = [], cfg_ShowEvents = showEvents\<rparr>"

subsection \<open>The year anchor and the residual terms\<close>







subsection \<open>The unified counters\<close>

lemma addCounters_loop_length [simp]: "length (addCounters_loop M k items) = length items"
  by (induction items arbitrary: k) simp_all

lemma addCounters_length [simp]: "length (addCounters items) = length items"
  by (simp add: addCounters_def)

lemma addCounters_Nil_iff [simp]: "addCounters items = [] \<longleftrightarrow> items = []"
  using addCounters_length [of items] by (metis length_0_conv)

text \<open>
  The item at the 1-indexed position \<open>i\<close> of a batch of \<open>M\<close> items, as the counter loop
  leaves it: the counter is put before the subtitle, with a space when the subtitle is
  not empty.
\<close>

definition withCounter :: "nat \<Rightarrow> nat \<Rightarrow> AlfredItem \<Rightarrow> AlfredItem" where
  "withCounter i M item =
     item\<lparr>it_Subtitle :=
        formatNumber (int i) @ ''/'' @ formatNumber (int M)
          @ (if it_Subtitle item \<noteq> [] then '' '' @ it_Subtitle item else [])\<rparr>"

lemma addCounters_loop_nth:
  "i < length items \<Longrightarrow> addCounters_loop M k items ! i = withCounter (k + i + 1) M (items ! i)"
proof (induction items arbitrary: k i)
  case Nil
  then show ?case by simp
next
  case (Cons x xs)
  show ?case
  proof (cases i)
    case 0
    then show ?thesis by (simp add: withCounter_def add.commute)
  next
    case (Suc j)
    then show ?thesis using Cons.IH [of j "Suc k"] Cons.prems by simp
  qed
qed

lemma addCounters_nth:
  "i < length items \<Longrightarrow> addCounters items ! i = withCounter (i + 1) (length items) (items ! i)"
  by (simp add: addCounters_def addCounters_loop_nth)

text \<open>
  A batch that lists the ruler items, then the event items, each with the counter of its
  position in the whole batch.
\<close>

definition countedBatch :: "AlfredItem list \<Rightarrow> AlfredItem list \<Rightarrow> AlfredItem list \<Rightarrow> bool" where
  "countedBatch rulerItems eventItems batch \<longleftrightarrow>
     length batch = length rulerItems + length eventItems \<and>
     (\<forall>i < length rulerItems. batch ! i = withCounter (i + 1) (length batch) (rulerItems ! i)) \<and>
     (\<forall>j < length eventItems.
        batch ! (length rulerItems + j)
          = withCounter (length rulerItems + j + 1) (length batch) (eventItems ! j))"

lemma countedBatch_addCounters: "countedBatch R E (addCounters (R @ E))"
  by (simp add: countedBatch_def addCounters_nth nth_append)

lemma digits_length_small: "n < 1000 \<Longrightarrow> length (digits n) \<le> 3"
proof -
  assume n: "n < 1000"
  have 1: "length (digits m) = 1" if "m < 10" for m
    using that by (subst digits.simps) simp
  have 2: "length (digits m) \<le> 2" if "m < 100" for m
    using that 1 [of "m div 10"] by (subst digits.simps) auto
  show ?thesis
    using n 2 [of "n div 10"] 1 [of n] by (subst digits.simps) auto
qed

lemma formatNumber_small: "n < 1000 \<Longrightarrow> formatNumber (int n) = Itoa (int n)"
  using digits_length_small [of n] by (simp add: formatNumber_def Itoa_def)

text \<open>
  C3 (as amended). With events enabled, the batch of a search by name, and the batch of a
  search by year whose query succeeds, is, when it has an item at all, the ruler items
  followed by the event items, and the item at position \<open>i\<close> of the \<open>M\<close> items has the
  counter \<open>formatNumber(i)/formatNumber(M)\<close> before its subtitle, counted over the whole
  batch. \<^verbatim>\<open>formatNumber\<close> writes thousands separators, so the counter is the plain \<open>i/M\<close>
  in the batches of fewer than 1000 items.
\<close>

theorem merged_batch_counters:
  assumes "cfg_ShowEvents config"
  shows "(cfg_MySource config \<noteq> ''ruler'' \<and> input \<noteq> [] \<and> filter isNumberLike (Fields input) = []
          \<and> getRulerResultsWithoutCounters db (Fields input) input
              @ byEventWithoutCounters db (Fields input) input \<noteq> []
          \<longrightarrow> (\<exists>batch. main db config oq input = Some batch
                \<and> countedBatch (getRulerResultsWithoutCounters db (Fields input) input)
                     (byEventWithoutCounters db (Fields input) input) batch))
       \<and> (yearRows db (yearCondition yearTerm) terms = Some rows
          \<and> map (yearItem db config yearTerm q) rows
              @ getEventsByYearWithoutCounters db terms yearTerm q \<noteq> []
          \<longrightarrow> (\<exists>batch. byYear db terms yearTerm config q = Some batch
                \<and> countedBatch (map (yearItem db config yearTerm q) rows)
                     (getEventsByYearWithoutCounters db terms yearTerm q) batch))
       \<and> (i \<le> M \<and> M < 1000
          \<longrightarrow> formatNumber (int i) @ ''/'' @ formatNumber (int M) = Itoa (int i) @ ''/'' @ Itoa (int M))"
proof (intro conjI impI)
  assume a: "cfg_MySource config \<noteq> ''ruler'' \<and> input \<noteq> [] \<and> filter isNumberLike (Fields input) = []
          \<and> getRulerResultsWithoutCounters db (Fields input) input
              @ byEventWithoutCounters db (Fields input) input \<noteq> []"
  let ?R = "getRulerResultsWithoutCounters db (Fields input) input"
  let ?E = "byEventWithoutCounters db (Fields input) input"
  have "main db config oq input = Some (addCounters (?R @ ?E))"
    using a assms unfolding main_def Let_def addCounters_Nil_iff by simp
  then show "\<exists>batch. main db config oq input = Some batch \<and> countedBatch ?R ?E batch"
    using countedBatch_addCounters by blast
next
  assume a: "yearRows db (yearCondition yearTerm) terms = Some rows
          \<and> map (yearItem db config yearTerm q) rows
              @ getEventsByYearWithoutCounters db terms yearTerm q \<noteq> []"
  let ?R = "map (yearItem db config yearTerm q) rows"
  let ?E = "getEventsByYearWithoutCounters db terms yearTerm q"
  have "byYear db terms yearTerm config q = Some (addCounters (?R @ ?E))"
    using a assms unfolding byYear_def Let_def addCounters_Nil_iff by simp
  then show "\<exists>batch. byYear db terms yearTerm config q = Some batch \<and> countedBatch ?R ?E batch"
    using countedBatch_addCounters by blast
next
  assume "i \<le> M \<and> M < 1000"
  then show "formatNumber (int i) @ ''/'' @ formatNumber (int M) = Itoa (int i) @ ''/'' @ Itoa (int M)"
    by (simp add: formatNumber_small)
qed

text \<open>A store that finds one ruler item and one event item, the second without a subtitle.\<close>

definition plainItem :: "string \<Rightarrow> string \<Rightarrow> AlfredItem" where
  "plainItem title subtitle =
     \<lparr>it_Title = title, it_Subtitle = subtitle, it_Valid = True, it_Arg = [], it_Mods = [],
      it_Icon = []\<rparr>"

definition twoHitStore :: Store where
  "twoHitStore =
     emptyStore\<lparr>getRulerResultsWithoutCounters := (\<lambda>terms q. [plainItem ''Louis XIV'' ''King'']),
                 byEventWithoutCounters := (\<lambda>terms q. [plainItem ''1682: Louisiana'' []])\<rparr>"

lemma Fields_louis: "Fields ''louis'' = [''louis'']" "\<not> isNumberLike ''louis''"
  by (simp_all add: Fields_def isSpace_def isNumberLike_def yearPart_def andThen_def optChr_def
      chr_def isDigit_def isStar_def)

theorem merged_batch_counters_witness:
  "main twoHitStore (searchConfig True) [] ''louis''
   = Some [plainItem ''Louis XIV'' ''1/2 King'', plainItem ''1682: Louisiana'' ''2/2'']"
proof -
  have c: "cfg_ShowEvents (searchConfig True)" by (simp add: searchConfig_def)
  have h: "cfg_MySource (searchConfig True) \<noteq> ''ruler'' \<and> ''louis'' \<noteq> []
      \<and> filter isNumberLike (Fields ''louis'') = []
      \<and> getRulerResultsWithoutCounters twoHitStore (Fields ''louis'') ''louis''
          @ byEventWithoutCounters twoHitStore (Fields ''louis'') ''louis'' \<noteq> []"
    by (simp add: searchConfig_def Fields_louis twoHitStore_def)
  obtain batch where b: "main twoHitStore (searchConfig True) [] ''louis'' = Some batch"
    and cb: "countedBatch (getRulerResultsWithoutCounters twoHitStore (Fields ''louis'') ''louis'')
               (byEventWithoutCounters twoHitStore (Fields ''louis'') ''louis'') batch"
    using merged_batch_counters [OF c, of "''louis''" twoHitStore "[]"] h by blast
  have l: "length batch = 2" using cb by (simp add: countedBatch_def twoHitStore_def)
  have 0: "batch ! 0 = plainItem ''Louis XIV'' ''1/2 King''"
    using cb l
    by (simp add: countedBatch_def twoHitStore_def withCounter_def plainItem_def formatNumber_def
        Itoa_def digitChar_def)
  have "batch ! (1 + 0) = plainItem ''1682: Louisiana'' ''2/2''"
    using cb l
    by (simp add: countedBatch_def twoHitStore_def withCounter_def plainItem_def formatNumber_def
        Itoa_def digitChar_def)
  then have 1: "batch ! 1 = plainItem ''1682: Louisiana'' ''2/2''" by simp
  have "batch = [batch ! 0, batch ! 1]"
    using l by (cases batch; cases "tl batch") auto
  then show ?thesis using b 0 1 by simp
qed

text \<open>
  A search by name that finds 1000 items: the last one carries the counter
  \<open>1,000/1,000\<close>, not \<open>1000/1000\<close>.
\<close>

definition thousandStore :: Store where
  "thousandStore =
     emptyStore\<lparr>getRulerResultsWithoutCounters := (\<lambda>terms q. replicate 1000 (plainItem ''x'' []))\<rparr>"

theorem merged_batch_counters_counterexample:
  "map_option length (main thousandStore (searchConfig True) [] ''louis'') = Some 1000
   \<and> map_option (\<lambda>batch. it_Subtitle (batch ! 999)) (main thousandStore (searchConfig True) [] ''louis'')
       = Some ''1,000/1,000''
   \<and> Itoa 1000 @ ''/'' @ Itoa 1000 = ''1000/1000''"
proof -
  have m: "main thousandStore (searchConfig True) [] ''louis''
             = Some (addCounters (replicate 1000 (plainItem ''x'' [])))"
    unfolding main_def Let_def addCounters_Nil_iff
    by (simp add: searchConfig_def Fields_louis thousandStore_def emptyStore_def)
  have f: "formatNumber 1000 = ''1,000''"
    by (simp add: formatNumber_def Itoa_def digitChar_def)
  have "it_Subtitle (addCounters (replicate 1000 (plainItem ''x'' [])) ! 999) = ''1,000/1,000''"
    by (simp add: addCounters_nth withCounter_def plainItem_def f)
  then show ?thesis unfolding m by (simp add: Itoa_def digitChar_def)
qed

subsection \<open>The placeholder item\<close>

text \<open>
  Where the placeholder is produced: a search by year whose query succeeds, and a search
  by name with events enabled, print the placeholder alone when they find nothing. The
  placeholder is not valid, and its only modifier is the return to the original query,
  valid, with the query as argument and the lineage variables emptied.
\<close>

lemma placeholder_paths:
  "yearRows db (yearCondition yearTerm) terms = Some [] \<Longrightarrow> yearTerm \<noteq> [] \<Longrightarrow>
     (cfg_ShowEvents config \<Longrightarrow> getEventsByYearWithoutCounters db terms yearTerm q = []) \<Longrightarrow>
     byYear db terms yearTerm config q = Some [noResultsItem q]"
  "cfg_MySource config \<noteq> ''ruler'' \<Longrightarrow> input \<noteq> [] \<Longrightarrow> filter isNumberLike (Fields input) = [] \<Longrightarrow>
     cfg_ShowEvents config \<Longrightarrow> getRulerResultsWithoutCounters db (Fields input) input = [] \<Longrightarrow>
     byEventWithoutCounters db (Fields input) input = [] \<Longrightarrow>
     main db config oq input = Some [noResultsItem input]"
  "\<not> it_Valid (noResultsItem q)"
  "it_Mods (noResultsItem q) = [(''cmd+alt'', goBackMod q)]"
  "mod_Valid (goBackMod q) \<and> mod_Arg (goBackMod q) = q"
  "map_of (mod_Variables (goBackMod q)) ''mySource'' = Some []
   \<and> map_of (mod_Variables (goBackMod q)) ''myRulerID'' = Some []
   \<and> map_of (mod_Variables (goBackMod q)) ''mytitleProg'' = Some []
   \<and> map_of (mod_Variables (goBackMod q)) ''myTitle'' = Some []
   \<and> map_of (mod_Variables (goBackMod q)) ''restoredQuery'' = Some q"
  by (auto simp: byYear_def main_def Let_def addCounters_def noResultsItem_def goBackMod_def)

text \<open>
  C9. A search by name with events disabled goes to the branch \<open>searchRuler\<close> of
  \<^verbatim>\<open>byRuler\<close>, which the source leaves unfinished (it builds a condition and drops it): the
  query \<open>zzz\<close>, which has one classified term and finds nothing, prints no batch at all,
  where the branch with events enabled prints the placeholder.
\<close>

theorem main_name_search_events_off: "main db (searchConfig False) oq ''zzz'' = None"
proof -
  have "Fields ''zzz'' = [''zzz'']" by (simp add: Fields_def isSpace_def)
  moreover have "\<not> isNumberLike ''zzz''"
    by (simp add: isNumberLike_def yearPart_def andThen_def optChr_def chr_def isDigit_def
        isStar_def)
  ultimately show ?thesis by (simp add: main_def byRuler_def searchConfig_def)
qed

subsection \<open>The lineage window\<close>












end
